theory Spec2Isabelle
  imports Complex_Main "HOL-Library.Multiset"
begin

section \<open>Errors raised by the two components\<close>

text \<open>
  Every place where the Python can raise is a branch of the model.  The two
  \<^verbatim>\<open>ValueError\<close>s are kept apart: the one the backtester raises itself at its
  first statement, and the one numpy raises when two arrays cannot be broadcast.
\<close>

datatype error =
    TimestampsNotInDataFrame  \<comment> \<open>\<^verbatim>\<open>raise ValueError("Timestamps must be in the DataFrame")\<close>\<close>
  | BroadcastError            \<comment> \<open>numpy: operands could not be broadcast together\<close>
  | IndexError                \<comment> \<open>list or array index out of range\<close>
  | KeyError                  \<comment> \<open>pandas: row label not in the index\<close>
  | UnboundLocalError         \<comment> \<open>a local read before assignment\<close>

section \<open>Data\<close>

text \<open>
  A data frame is the list of its rows.  The backtester reads the columns
  \<^verbatim>\<open>Time\<close> and \<^verbatim>\<open>Close\<close> only; the signal generator reads the further
  columns of \<open>indicator_row\<close>.  Prices are reals (the data model makes them
  positive, so the divisions of the replay are by non-zero numbers); a NaN of
  the \<^verbatim>\<open>bull\<close> column is \<open>None\<close>.
\<close>

record candle =
  Time :: int
  Close :: real

record indicator_row = candle +
  High :: real
  Low :: real
  twenty_ema :: real
  fifty_ema :: real
  one_hundred_ema :: real
  bull :: "real option"

section \<open>simple\_backtester.py\<close>

definition BUY :: int where
  "BUY = 1"

definition SELL :: int where
  "SELL = - 1"

text \<open>\<^verbatim>\<open>np.argsort\<close>: the indices that sort the list (ties in index order).\<close>

definition argsort :: "int list \<Rightarrow> nat list" where
  "argsort xs = map snd (sort_key fst (zip xs [0..<length xs]))"

text \<open>\<^verbatim>\<open>np.array(xs)[idx]\<close>: an index beyond the array raises.\<close>

definition take_at :: "'a list \<Rightarrow> nat list \<Rightarrow> error + 'a list" where
  "take_at xs idx =
     (if \<forall>i \<in> set idx. i < length xs then Inr (map (\<lambda>i. xs ! i) idx) else Inl IndexError)"

text \<open>Lines 65 to 68: the frame of the signals, in sorted order.\<close>

definition signal_df :: "int list \<Rightarrow> int list \<Rightarrow> error + (int \<times> int) list" where
  "signal_df ts sgs =
     (let sort_order = argsort ts in
      case take_at ts sort_order of
        Inl e \<Rightarrow> Inl e
      | Inr ts' \<Rightarrow>
          (case take_at sgs sort_order of
             Inl e \<Rightarrow> Inl e
           | Inr sgs' \<Rightarrow> Inr (zip ts' sgs')))"

text \<open>
  Line 69, \<^verbatim>\<open>pd.merge(df, signal_df, how='left', on='Time')\<close>: the rows of
  \<open>df\<close> in their order, each once per signal of its time, or once with a NaN
  signal when it has none.
\<close>

definition merge_left ::
  "'a candle_scheme list \<Rightarrow> (int \<times> int) list \<Rightarrow> (int \<times> real \<times> int option) list" where
  "merge_left df sdf =
     concat (map (\<lambda>r.
       (case filter (\<lambda>p. fst p = Time r) sdf of
          [] \<Rightarrow> [(Time r, Close r, None)]
        | ms \<Rightarrow> map (\<lambda>p. (Time r, Close r, Some (snd p))) ms)) df)"

text \<open>Line 70: the rows whose signal is not NaN, as (time, close, signal).\<close>

definition df_filtered :: "(int \<times> real \<times> int option) list \<Rightarrow> (int \<times> real \<times> int) list" where
  "df_filtered merged_df =
     concat (map (\<lambda>(t, c, s). case s of None \<Rightarrow> [] | Some v \<Rightarrow> [(t, c, v)]) merged_df)"

text \<open>The five lists that the loop fills and the result returns unchanged.\<close>

record trade_lists =
  buy_times :: "int list"
  sell_times :: "int list"
  trade_times :: "int list"
  trade_gain_losses :: "real list"
  trade_perc_gain_losses :: "real list"

text \<open>The locals of the replay loop (lines 73 to 84).\<close>

record account = trade_lists +
  position :: bool
  prev_portfolio_value :: real
  portfolio_value :: real
  crypto_value :: real
  wins :: nat
  trades :: nat

definition initial_account :: account where
  "initial_account =
     \<lparr> buy_times = [], sell_times = [], trade_times = [],
       trade_gain_losses = [], trade_perc_gain_losses = [],
       position = False, prev_portfolio_value = 100, portfolio_value = 100,
       crypto_value = 0, wins = 0, trades = 0 \<rparr>"

text \<open>The body of the loop of lines 90 to 113, on one row.\<close>

definition backtest_step :: "account \<Rightarrow> int \<times> real \<times> int \<Rightarrow> account" where
  "backtest_step a row =
     (case row of (time, close, signal) \<Rightarrow>
        if \<not> position a \<and> signal = BUY then
          a\<lparr> prev_portfolio_value := portfolio_value a,
             crypto_value := portfolio_value a / close,
             buy_times := buy_times a @ [time],
             position := True \<rparr>
        else if position a \<and> signal = SELL then
          (let pv = crypto_value a * close;
               gain_loss = pv - prev_portfolio_value a;
               perc_gain_loss = gain_loss / prev_portfolio_value a
           in a\<lparr> portfolio_value := pv,
                 position := False,
                 sell_times := sell_times a @ [time],
                 trade_times := trade_times a @ [time],
                 trade_gain_losses := trade_gain_losses a @ [gain_loss],
                 trade_perc_gain_losses := trade_perc_gain_losses a @ [perc_gain_loss],
                 trades := trades a + 1,
                 wins := (if gain_loss \<ge> 0 then wins a + 1 else wins a) \<rparr>)
        else a)"

definition replay :: "(int \<times> real \<times> int) list \<Rightarrow> account" where
  "replay rows = foldl backtest_step initial_account rows"

text \<open>
  \<^verbatim>\<open>a - b\<close> on two one-dimensional arrays: elementwise when the lengths agree,
  an array of length one is stretched, anything else raises.
\<close>

definition np_subtract :: "int list \<Rightarrow> int list \<Rightarrow> error + int list" where
  "np_subtract xs ys =
     (if length xs = length ys then Inr (map2 (-) xs ys)
      else if length xs = 1 then Inr (map (\<lambda>y. hd xs - y) ys)
      else if length ys = 1 then Inr (map (\<lambda>x. x - hd ys) xs)
      else Inl BroadcastError)"

definition np_mean :: "real list \<Rightarrow> real" where
  "np_mean xs = sum_list xs / real (length xs)"

record backtest_result = trade_lists +
  num_wins :: nat
  win_rate :: real
  num_trades :: nat
  start_portfolio_value :: real
  end_portfolio_value :: real
  percentage_gain :: real
  avg_perc_gain_per_trade :: real
  avg_gain_loss_per_trade :: real
  avg_holding_time :: real

text \<open>The last entry of the dictionary (line 137), the only one that can raise.\<close>

definition holding_time :: "account \<Rightarrow> error + real" where
  "holding_time a =
     (if length (buy_times a) > 0 \<and> length (sell_times a) > 0 then
        (case np_subtract (sell_times a) (buy_times a) of
           Inl e \<Rightarrow> Inl e
         | Inr ds \<Rightarrow> Inr (np_mean (map real_of_int ds)))
      else Inr 0)"

text \<open>Lines 123 to 139.\<close>

definition summary :: "account \<Rightarrow> error + backtest_result" where
  "summary a =
     (case holding_time a of
        Inl e \<Rightarrow> Inl e
      | Inr h \<Rightarrow> Inr
          \<lparr> buy_times = buy_times a, sell_times = sell_times a,
            trade_times = trade_times a,
            trade_gain_losses = trade_gain_losses a,
            trade_perc_gain_losses = trade_perc_gain_losses a,
            num_wins = wins a,
            win_rate = (if trades a > 0 then real (wins a) / real (trades a) else 0),
            num_trades = trades a,
            start_portfolio_value = 100,
            end_portfolio_value = portfolio_value a,
            percentage_gain = (portfolio_value a - 100) / 100,
            avg_perc_gain_per_trade =
              (if length (trade_perc_gain_losses a) > 0
               then np_mean (trade_perc_gain_losses a) else 0),
            avg_gain_loss_per_trade =
              (if length (trade_gain_losses a) > 0
               then np_mean (trade_gain_losses a) else 0),
            avg_holding_time = h \<rparr>)"

text \<open>Lines 60 to 70: the check of the timestamps, then the rows to replay.\<close>

definition joined_rows ::
  "'a candle_scheme list \<Rightarrow> int list \<Rightarrow> int list \<Rightarrow> error + (int \<times> real \<times> int) list" where
  "joined_rows df ts sgs =
     (if \<exists>t \<in> set ts. t \<notin> set (map Time df) then Inl TimestampsNotInDataFrame
      else case signal_df ts sgs of
             Inl e \<Rightarrow> Inl e
           | Inr sdf \<Rightarrow> Inr (df_filtered (merge_left df sdf)))"

definition simple_backtest ::
  "'a candle_scheme list \<Rightarrow> int list \<Rightarrow> int list \<Rightarrow> error + backtest_result" where
  "simple_backtest df ts sgs =
     (case joined_rows df ts sgs of
        Inl e \<Rightarrow> Inl e
      | Inr rows \<Rightarrow> summary (replay rows))"

section \<open>williams\_fractal\_trading\_simulator.py\<close>

text \<open>\<^verbatim>\<open>df.X[i]\<close>: the row of label \<open>i\<close> of a frame with the default index.\<close>

definition row_at :: "'a list \<Rightarrow> nat \<Rightarrow> error + 'a" where
  "row_at df i = (if i < length df then Inr (df ! i) else Inl KeyError)"

text \<open>Comparisons of the \<^verbatim>\<open>bull\<close> column: a NaN compares false.\<close>

definition nan_le :: "real option \<Rightarrow> real \<Rightarrow> bool" where
  "nan_le x y = (case x of None \<Rightarrow> False | Some v \<Rightarrow> v \<le> y)"

definition nan_gt :: "real option \<Rightarrow> real \<Rightarrow> bool" where
  "nan_gt x y = (case x of None \<Rightarrow> False | Some v \<Rightarrow> v > y)"

text \<open>
  The locals of \<^verbatim>\<open>simulate_trades\<close>.  \<^verbatim>\<open>stop_loss\<close> and
  \<^verbatim>\<open>take_profit\<close> are unbound (\<open>None\<close>) until the first entry.
\<close>

record trade_scan =
  active_trade :: bool
  timestamps :: "int list"
  signals :: "int list"
  stop_loss :: "real option"
  take_profit :: "real option"

definition initial_scan :: trade_scan where
  "initial_scan =
     \<lparr> active_trade = False, timestamps = [], signals = [],
       stop_loss = None, take_profit = None \<rparr>"

text \<open>
  The body of the loop of lines 57 to 89 at the loop's row \<open>i\<close>.  The
  \<^verbatim>\<open>i += 2\<close> of the two entry branches changes the local \<open>i\<close> for the rest
  of the body only (row \<open>i + 2\<close> below); the \<^verbatim>\<open>for\<close> loop continues with
  the next element of its range.
\<close>

definition scan_step ::
  "'a indicator_row_scheme list \<Rightarrow> real \<Rightarrow> trade_scan \<Rightarrow> nat \<Rightarrow> error + trade_scan" where
  "scan_step df target s i =
     (if active_trade s then
        (case row_at df i of
           Inl e \<Rightarrow> Inl e
         | Inr r \<Rightarrow>
             (case take_profit s of
                None \<Rightarrow> Inl UnboundLocalError
              | Some tp \<Rightarrow>
                  if High r \<ge> tp then
                    Inr (s\<lparr> timestamps := timestamps s @ [Time r],
                            signals := signals s @ [- 1],
                            active_trade := False \<rparr>)
                  else
                    (case stop_loss s of
                       None \<Rightarrow> Inl UnboundLocalError
                     | Some sl \<Rightarrow>
                         if Low r < sl then
                           Inr (s\<lparr> timestamps := timestamps s @ [Time r],
                                   signals := signals s @ [- 1],
                                   active_trade := False \<rparr>)
                         else Inr s)))
      else
        (case row_at df i of
           Inl e \<Rightarrow> Inl e
         | Inr r \<Rightarrow>
             if twenty_ema r > fifty_ema r \<and> fifty_ema r > one_hundred_ema r then
               if nan_le (bull r) (twenty_ema r) \<and> nan_gt (bull r) (fifty_ema r) then
                 (case row_at df (i + 2) of
                    Inl e \<Rightarrow> Inl e
                  | Inr r2 \<Rightarrow>
                      (let sl = fifty_ema r2;
                           diff = \<bar>Close r2 - sl\<bar>;
                           tp = Close r2 + diff * target
                       in Inr (s\<lparr> active_trade := True,
                                  stop_loss := Some sl,
                                  take_profit := Some tp,
                                  timestamps := timestamps s @ [Time r2],
                                  signals := signals s @ [1] \<rparr>)))
               else if nan_le (bull r) (fifty_ema r) \<and> nan_gt (bull r) (one_hundred_ema r) then
                 (case row_at df (i + 2) of
                    Inl e \<Rightarrow> Inl e
                  | Inr r2 \<Rightarrow>
                      (let sl = one_hundred_ema r2;
                           diff = \<bar>Close r2 - sl\<bar>;
                           tp = Close r2 + diff * target
                       in Inr (s\<lparr> active_trade := True,
                                  stop_loss := Some sl,
                                  take_profit := Some tp,
                                  timestamps := timestamps s @ [Time r2],
                                  signals := signals s @ [1] \<rparr>)))
               else Inr s
             else Inr s))"

text \<open>The loop over the rows of a range; an exception ends it.\<close>

fun scan ::
  "'a indicator_row_scheme list \<Rightarrow> real \<Rightarrow> nat list \<Rightarrow> trade_scan \<Rightarrow> error + trade_scan" where
  "scan df target [] s = Inr s"
| "scan df target (i # rest) s =
     (case scan_step df target s i of
        Inl e \<Rightarrow> Inl e
      | Inr s' \<Rightarrow> scan df target rest s')"

text \<open>
  \<^verbatim>\<open>simulate_trades\<close>: \<open>Inr None\<close> is the \<^verbatim>\<open>return None\<close> of line 50;
  \<^verbatim>\<open>signals[-1]\<close> of line 92 raises on the empty list.
\<close>

definition simulate_trades ::
  "'a indicator_row_scheme list \<Rightarrow> real \<Rightarrow> error + (int list \<times> int list) option" where
  "simulate_trades df target =
     (if length df < 102 then Inr None
      else
        (case scan df target [100..<length df - 2] initial_scan of
           Inl e \<Rightarrow> Inl e
         | Inr s \<Rightarrow>
             if signals s = [] then Inl IndexError
             else if last (signals s) = 1 then
               Inr (Some (butlast (timestamps s), butlast (signals s)))
             else Inr (Some (timestamps s, signals s))))"

text \<open>
  The signals of an output in the order of their timestamps (a stable sort),
  and the property that no two neighbours of a list are equal.
\<close>

definition sorted_by_time :: "int list \<Rightarrow> int list \<Rightarrow> (int \<times> int) list" where
  "sorted_by_time ts sgs = sort_key fst (zip ts sgs)"

fun alternating :: "int list \<Rightarrow> bool" where
  "alternating (x # y # rest) = (x \<noteq> y \<and> alternating (y # rest))"
| "alternating _ = True"

section \<open>Concrete inputs\<close>

text \<open>The three candles of the scenarios of the backtester.\<close>

definition scenario_df :: "candle list" where
  "scenario_df =
     [\<lparr>Time = 0, Close = 100\<rparr>, \<lparr>Time = 60000, Close = 110\<rparr>, \<lparr>Time = 120000, Close = 90\<rparr>]"

text \<open>Two more candles, for a replay that closes two trades.\<close>

definition scenario_df5 :: "candle list" where
  "scenario_df5 =
     scenario_df @ [\<lparr>Time = 180000, Close = 95\<rparr>, \<lparr>Time = 240000, Close = 105\<rparr>]"

text \<open>
  One-minute indicator rows for the generator.  The EMAs are in bullish
  order everywhere (28 > 24 > 20) and every close is 27.  A row listed in
  \<open>fractals\<close> has the low 25, below the low 26 of the other rows, and
  carries it as its bullish fractal, between the fast and the middle EMA; a
  row listed in \<open>highs\<close> has the high 32, the others 28.
\<close>

definition frame_row :: "nat list \<Rightarrow> nat list \<Rightarrow> nat \<Rightarrow> indicator_row" where
  "frame_row fractals highs i =
     \<lparr> Time = 60000 * int i, Close = 27,
       High = (if i \<in> set highs then 32 else 28),
       Low = (if i \<in> set fractals then 25 else 26),
       twenty_ema = 28, fifty_ema = 24, one_hundred_ema = 20,
       bull = (if i \<in> set fractals then Some 25 else None) \<rparr>"

definition frame :: "nat \<Rightarrow> nat list \<Rightarrow> nat list \<Rightarrow> indicator_row list" where
  "frame n fractals highs = map (frame_row fractals highs) [0..<n]"

text \<open>
  Scenario D: 103 rows whose row 100 has a fractal at 22, between the middle
  and the slow EMA, while its fast EMA has fallen to the middle EMA.
\<close>

definition scenario_d_row :: indicator_row where
  "scenario_d_row =
     \<lparr> Time = 6000000, Close = 27, High = 28, Low = 22,
       twenty_ema = 24, fifty_ema = 24, one_hundred_ema = 20, bull = Some 22 \<rparr>"

definition scenario_d_frame :: "indicator_row list" where
  "scenario_d_frame = (frame 103 [] [])[100 := scenario_d_row]"

section \<open>The specification's words\<close>

text \<open>
  The average holding time as the specification defines it: the mean of
  sell time minus buy time over the closed trades (the buys paired with the
  sells in order), and 0 when no trade has closed.
\<close>

definition spec_avg_holding_time :: "int list \<Rightarrow> int list \<Rightarrow> real" where
  "spec_avg_holding_time buys sells =
     (let closed = zip buys sells
      in if closed = [] then 0
         else (\<Sum>(b, s) \<leftarrow> closed. real_of_int (s - b)) / real (length closed))"

text \<open>
  The entry rule as the specification states it: the trend filter, the two
  zones with a non-null fractal, and the state after an entry confirmed at
  row \<open>r2\<close> with the given boundary.
\<close>

definition trend_filter :: "'a indicator_row_scheme \<Rightarrow> bool" where
  "trend_filter r \<longleftrightarrow> twenty_ema r > fifty_ema r \<and> fifty_ema r > one_hundred_ema r"

definition fast_mid_zone :: "'a indicator_row_scheme \<Rightarrow> bool" where
  "fast_mid_zone r \<longleftrightarrow>
     (case bull r of None \<Rightarrow> False | Some b \<Rightarrow> b \<le> twenty_ema r \<and> b > fifty_ema r)"

definition mid_slow_zone :: "'a indicator_row_scheme \<Rightarrow> bool" where
  "mid_slow_zone r \<longleftrightarrow>
     (case bull r of None \<Rightarrow> False | Some b \<Rightarrow> b \<le> fifty_ema r \<and> b > one_hundred_ema r)"

definition entered ::
  "trade_scan \<Rightarrow> real \<Rightarrow> 'a indicator_row_scheme \<Rightarrow> real \<Rightarrow> trade_scan" where
  "entered s target r2 boundary =
     s\<lparr> active_trade := True,
        stop_loss := Some boundary,
        take_profit := Some (Close r2 + target * \<bar>Close r2 - boundary\<bar>),
        timestamps := timestamps s @ [Time r2],
        signals := signals s @ [1] \<rparr>"

section \<open>Invariants of the two loops\<close>

definition account_inv :: "account \<Rightarrow> bool" where
  "account_inv a \<longleftrightarrow>
     length (sell_times a) = trades a \<and>
     length (trade_times a) = trades a \<and>
     length (trade_gain_losses a) = trades a \<and>
     length (trade_perc_gain_losses a) = trades a \<and>
     length (buy_times a) = trades a + (if position a then 1 else 0) \<and>
     wins a \<le> trades a \<and>
     (trades a = 0 \<longrightarrow> portfolio_value a = 100 \<and> wins a = 0)"

definition scan_inv :: "trade_scan \<Rightarrow> bool" where
  "scan_inv s \<longleftrightarrow>
     (active_trade s \<longleftrightarrow> signals s \<noteq> [] \<and> last (signals s) = 1) \<and>
     (active_trade s \<longrightarrow> stop_loss s \<noteq> None \<and> take_profit s \<noteq> None) \<and>
     alternating (signals s) \<and>
     set (signals s) \<subseteq> {1, - 1} \<and>
     length (timestamps s) = length (signals s)"

section \<open>Replay\<close>

text \<open>
  C9.  A BUY met while the account is long leaves the whole account as it
  is (position, values, units, lists and counters), and so does a SELL met
  while the account is flat.
\<close>

theorem buy_while_long_sell_while_flat_ignored:
  "(position a \<longrightarrow> backtest_step a (time, close, BUY) = a) \<and>
   (\<not> position a \<longrightarrow> backtest_step a (time, close, SELL) = a)"
  by (simp add: backtest_step_def BUY_def SELL_def)

theorem buy_while_long_sell_while_flat_ignored_witness:
  "position (backtest_step initial_account (0, 100, BUY)) \<and>
   backtest_step (backtest_step initial_account (0, 100, BUY)) (60000, 110, BUY) =
     backtest_step initial_account (0, 100, BUY) \<and>
   \<not> position initial_account \<and>
   backtest_step initial_account (0, 100, SELL) = initial_account"
proof -
  have long: "position (backtest_step initial_account (0, 100, BUY))"
    by (simp add: backtest_step_def initial_account_def BUY_def)
  have flat: "\<not> position initial_account"
    by (simp add: initial_account_def)
  from long flat
    buy_while_long_sell_while_flat_ignored
      [of "backtest_step initial_account (0, 100, BUY)" 60000 110]
    buy_while_long_sell_while_flat_ignored [of initial_account 0 100]
  show ?thesis by blast
qed

section \<open>Preprocessing of the signals\<close>

lemma mset_argsort: "mset (argsort xs) = mset [0..<length xs]"
proof -
  have "mset (argsort xs) = mset (map snd (zip xs [0..<length xs]))"
    by (simp only: argsort_def mset_map mset_sort)
  also have "map snd (zip xs [0..<length xs]) = [0..<length xs]"
    by simp
  finally show ?thesis .
qed

lemma set_argsort: "set (argsort xs) = {0..<length xs}"
  using mset_argsort [of xs] by (metis set_mset_mset set_upt)

lemma take_at_argsort: "take_at xs (argsort xs) = Inr (map (\<lambda>i. xs ! i) (argsort xs))"
  by (simp add: take_at_def set_argsort)

lemma take_at_argsort_other:
  "take_at ys (argsort xs) =
     (if length xs \<le> length ys then Inr (map (\<lambda>i. ys ! i) (argsort xs)) else Inl IndexError)"
proof (cases "length xs \<le> length ys")
  case True
  then show ?thesis by (auto simp: take_at_def set_argsort)
next
  case False
  then have "length ys \<in> {0..<length xs}" by simp
  then have "\<not> (\<forall>i \<in> set (argsort xs). i < length ys)"
    unfolding set_argsort by blast
  with False show ?thesis by (simp add: take_at_def)
qed

text \<open>
  The signal frame pairs each timestamp with its signal, in sorted order; a
  signal list shorter than the timestamp list raises at line 67.
\<close>

lemma signal_df_eq:
  "signal_df ts sgs =
     (if length ts \<le> length sgs
      then Inr (map (\<lambda>i. (ts ! i, sgs ! i)) (argsort ts)) else Inl IndexError)"
  by (simp add: signal_df_def Let_def take_at_argsort take_at_argsort_other zip_map_map
        zip_same_conv_map)

lemma sorted_argsort: "sorted (map (\<lambda>i. ts ! i) (argsort ts))"
proof -
  let ?zs = "sort_key fst (zip ts [0..<length ts])"
  have eq: "map (\<lambda>i. ts ! i) (map snd ?zs) = map fst ?zs"
    unfolding map_map by (rule map_cong) (auto simp: set_zip)
  have "sorted (map fst ?zs)" by simp
  then show ?thesis unfolding argsort_def eq .
qed

lemma joined_rows_error:
  "joined_rows df ts sgs = Inl e \<longleftrightarrow>
     (if \<exists>t \<in> set ts. t \<notin> set (map Time df) then e = TimestampsNotInDataFrame
      else length sgs < length ts \<and> e = IndexError)"
  by (auto simp: joined_rows_def signal_df_eq)

lemma joined_rows_empty: "joined_rows df [] sgs = Inr []"
  by (simp add: joined_rows_def signal_df_eq argsort_def merge_left_def df_filtered_def)

lemma simple_backtest_rows:
  "joined_rows df ts sgs = Inr rows \<Longrightarrow> simple_backtest df ts sgs = summary (replay rows)"
  by (simp add: simple_backtest_def)

section \<open>The account during the replay\<close>

lemma account_inv_initial: "account_inv initial_account"
  by (simp add: account_inv_def initial_account_def)

lemma account_inv_step: "account_inv a \<Longrightarrow> account_inv (backtest_step a row)"
  by (cases row) (simp add: account_inv_def backtest_step_def Let_def)

lemma account_inv_foldl: "account_inv a \<Longrightarrow> account_inv (foldl backtest_step a rows)"
  by (induction rows arbitrary: a) (simp_all add: account_inv_step)

lemma account_inv_replay: "account_inv (replay rows)"
  by (simp add: replay_def account_inv_foldl account_inv_initial)

section \<open>The summary\<close>

lemma holding_time_error: "holding_time a = Inl e \<Longrightarrow> e = BroadcastError"
  by (auto simp: holding_time_def np_subtract_def split: if_splits sum.splits)

lemma summary_error: "summary a = Inl e \<Longrightarrow> e = BroadcastError"
  by (auto simp: summary_def split: sum.splits dest: holding_time_error)

lemma summary_holding:
  "summary a = Inl e \<longleftrightarrow> holding_time a = Inl e"
  "holding_time a = Inr h \<Longrightarrow> \<exists>res. summary a = Inr res \<and> avg_holding_time res = h"
  by (auto simp: summary_def split: sum.splits)

lemma holding_time_no_sells: "sell_times a = [] \<Longrightarrow> holding_time a = Inr 0"
  by (simp add: holding_time_def)

lemma sum_list_map2_diff:
  "length ss = length bs \<Longrightarrow>
   sum_list (map real_of_int (map2 (-) ss bs)) = (\<Sum>(b, s) \<leftarrow> zip bs ss. real_of_int (s - b))"
  by (induction ss bs rule: list_induct2) simp_all

lemma np_mean_pairs:
  assumes l: "length ss = length bs" and ne: "ss \<noteq> []"
  shows "np_mean (map real_of_int (map2 (-) ss bs)) = spec_avg_holding_time bs ss"
proof -
  from l ne have z: "zip bs ss \<noteq> []" by (cases bs; cases ss) auto
  from l have len: "length (map real_of_int (map2 (-) ss bs)) = length (zip bs ss)"
    by simp
  show ?thesis
    unfolding np_mean_def spec_avg_holding_time_def Let_def len sum_list_map2_diff [OF l]
    using z by (simp only: if_False)
qed

lemma holding_time_matched:
  assumes "length (buy_times a) = length (sell_times a)"
  shows "holding_time a = Inr (spec_avg_holding_time (buy_times a) (sell_times a))"
proof (cases "sell_times a = []")
  case True
  with assms show ?thesis by (simp add: holding_time_def spec_avg_holding_time_def)
next
  case False
  with assms have ne: "buy_times a \<noteq> []" by auto
  from assms have l: "length (sell_times a) = length (buy_times a)" by simp
  from False ne l have "holding_time a =
      Inr (np_mean (map real_of_int (map2 (-) (sell_times a) (buy_times a))))"
    by (simp add: holding_time_def np_subtract_def del: map_map)
  then show ?thesis by (simp only: np_mean_pairs [OF l False])
qed

lemma holding_time_one_closed:
  assumes "buy_times a = [b0, b1]" "sell_times a = [s0]"
  shows "holding_time a = Inr (real_of_int s0 - (real_of_int b0 + real_of_int b1) / 2)"
  using assms by (simp add: holding_time_def np_subtract_def np_mean_def field_simps)

lemma holding_time_broadcast:
  assumes "length (buy_times a) = length (sell_times a) + 1" "2 \<le> length (sell_times a)"
  shows "holding_time a = Inl BroadcastError"
proof -
  from assms have "sell_times a \<noteq> []" by auto
  with assms show ?thesis by (simp add: holding_time_def np_subtract_def)
qed

section \<open>Validation\<close>

text \<open>
  C3.  The backtester raises its validation error exactly when some signal
  timestamp is absent from the \<^verbatim>\<open>Time\<close> column.  When one is absent the
  error is raised before any row is joined or replayed, whatever the signals
  and the closes are, and no result record is produced.
\<close>

theorem validation_error_iff_missing_timestamp:
  "(simple_backtest df ts sgs = Inl TimestampsNotInDataFrame \<longleftrightarrow>
      (\<exists>t \<in> set ts. t \<notin> set (map Time df))) \<and>
   ((\<exists>t \<in> set ts. t \<notin> set (map Time df)) \<longrightarrow>
      joined_rows df ts sgs = Inl TimestampsNotInDataFrame \<and>
      (\<forall>res. simple_backtest df ts sgs \<noteq> Inr res))"
proof -
  have a: "simple_backtest df ts sgs = Inl TimestampsNotInDataFrame"
    if "\<exists>t \<in> set ts. t \<notin> set (map Time df)"
    using that by (simp add: simple_backtest_def joined_rows_def)
  have b: "\<exists>t \<in> set ts. t \<notin> set (map Time df)"
    if h: "simple_backtest df ts sgs = Inl TimestampsNotInDataFrame"
  proof (cases "joined_rows df ts sgs")
    case (Inl e)
    with h have "e = TimestampsNotInDataFrame" by (simp add: simple_backtest_def)
    with Inl show ?thesis by (auto simp: joined_rows_error split: if_splits)
  next
    case (Inr rows)
    with h have "summary (replay rows) = Inl TimestampsNotInDataFrame"
      by (simp add: simple_backtest_def)
    then show ?thesis by (auto dest: summary_error)
  qed
  have c: "joined_rows df ts sgs = Inl TimestampsNotInDataFrame"
    if "\<exists>t \<in> set ts. t \<notin> set (map Time df)"
    using that by (simp add: joined_rows_def)
  from a b c show ?thesis by (metis Inl_Inr_False)
qed

text \<open>
  Scenario C (a timestamp 999999 that no candle has) fails the validation;
  scenario A does not.
\<close>

theorem validation_error_iff_missing_timestamp_witness:
  "simple_backtest scenario_df [120000, 0, 999999] [SELL, BUY, BUY] =
     Inl TimestampsNotInDataFrame \<and>
   simple_backtest scenario_df [0, 120000] [BUY, SELL] \<noteq> Inl TimestampsNotInDataFrame"
proof -
  have missing: "\<exists>t \<in> set [120000, 0, 999999]. t \<notin> set (map Time scenario_df)"
    by (simp add: scenario_df_def)
  have present: "\<not> (\<exists>t \<in> set [0, 120000]. t \<notin> set (map Time scenario_df))"
    by (simp add: scenario_df_def)
  from missing present
    validation_error_iff_missing_timestamp
      [of scenario_df "[120000, 0, 999999]" "[SELL, BUY, BUY]"]
    validation_error_iff_missing_timestamp [of scenario_df "[0, 120000]" "[BUY, SELL]"]
  show ?thesis by blast
qed

section \<open>Scenario A\<close>

text \<open>
  C4.  On the candles at times 0, 60000, 120000 with closes 100, 110, 90 and
  the signals BUY at 0 and SELL at 120000 the backtester returns: one trade,
  no win, gain - 10, relative gain - 1/10, final value 90, overall gain
  - 1/10.  The rows replayed are the first and the third candle; the BUY
  converts the value 100 into 1 unit and the SELL turns it into 90.
\<close>

theorem scenario_a_result:
  "simple_backtest scenario_df [0, 120000] [BUY, SELL] =
     Inr \<lparr> buy_times = [0], sell_times = [120000], trade_times = [120000],
           trade_gain_losses = [- 10], trade_perc_gain_losses = [- (1 / 10)],
           num_wins = 0, win_rate = 0, num_trades = 1,
           start_portfolio_value = 100, end_portfolio_value = 90,
           percentage_gain = - (1 / 10), avg_perc_gain_per_trade = - (1 / 10),
           avg_gain_loss_per_trade = - 10, avg_holding_time = 120000 \<rparr> \<and>
   joined_rows scenario_df [0, 120000] [BUY, SELL] = Inr [(0, 100, BUY), (120000, 90, SELL)] \<and>
   crypto_value (replay [(0, 100, BUY)]) = 1 \<and>
   portfolio_value (replay [(0, 100, BUY), (120000, 90, SELL)]) = 90"
proof -
  have rows: "joined_rows scenario_df [0, 120000] [BUY, SELL] =
      Inr [(0, 100, BUY), (120000, 90, SELL)]"
    by code_simp
  have r: "replay [(0, 100, BUY), (120000, 90, SELL)] =
      \<lparr> buy_times = [0], sell_times = [120000], trade_times = [120000],
        trade_gain_losses = [- 10], trade_perc_gain_losses = [- (1 / 10)],
        position = False, prev_portfolio_value = 100, portfolio_value = 90,
        crypto_value = 1, wins = 0, trades = 1 \<rparr>"
    by (simp add: replay_def backtest_step_def initial_account_def BUY_def SELL_def)
  have s: "summary (replay [(0, 100, BUY), (120000, 90, SELL)]) =
     Inr \<lparr> buy_times = [0], sell_times = [120000], trade_times = [120000],
           trade_gain_losses = [- 10], trade_perc_gain_losses = [- (1 / 10)],
           num_wins = 0, win_rate = 0, num_trades = 1,
           start_portfolio_value = 100, end_portfolio_value = 90,
           percentage_gain = - (1 / 10), avg_perc_gain_per_trade = - (1 / 10),
           avg_gain_loss_per_trade = - 10, avg_holding_time = 120000 \<rparr>"
    unfolding r by (simp add: summary_def holding_time_def np_subtract_def np_mean_def)
  have u: "crypto_value (replay [(0, 100, BUY)]) = 1"
    by (simp add: replay_def backtest_step_def initial_account_def BUY_def)
  from rows s u r show ?thesis by (simp add: simple_backtest_def)
qed

section \<open>No closed trade\<close>

text \<open>
  C8.  When the replay closes no trade the backtester returns normally, with
  num_trades = 0, the start and the end value both 100, percentage_gain = 0
  and the four aggregates win_rate, avg_perc_gain_per_trade,
  avg_gain_loss_per_trade and avg_holding_time all 0.  An empty signal list
  is such a case on every dataset: it passes the validation, no row is
  replayed and no trade is closed.
\<close>

theorem zero_trades_defaults:
  "(joined_rows df ts sgs = Inr rows \<and> trades (replay rows) = 0 \<longrightarrow>
      (\<exists>res. simple_backtest df ts sgs = Inr res \<and>
         num_trades res = 0 \<and> start_portfolio_value res = 100 \<and>
         end_portfolio_value res = 100 \<and> percentage_gain res = 0 \<and>
         win_rate res = 0 \<and> avg_perc_gain_per_trade res = 0 \<and>
         avg_gain_loss_per_trade res = 0 \<and> avg_holding_time res = 0)) \<and>
   joined_rows df [] sgs = Inr [] \<and> trades (replay []) = 0"
proof -
  have "\<exists>res. simple_backtest df ts sgs = Inr res \<and>
         num_trades res = 0 \<and> start_portfolio_value res = 100 \<and>
         end_portfolio_value res = 100 \<and> percentage_gain res = 0 \<and>
         win_rate res = 0 \<and> avg_perc_gain_per_trade res = 0 \<and>
         avg_gain_loss_per_trade res = 0 \<and> avg_holding_time res = 0"
    if j: "joined_rows df ts sgs = Inr rows" and z: "trades (replay rows) = 0"
  proof -
    let ?a = "replay rows"
    have inv: "account_inv ?a" by (rule account_inv_replay)
    with z have e: "sell_times ?a = []" "trade_gain_losses ?a = []"
      "trade_perc_gain_losses ?a = []" "portfolio_value ?a = 100"
      by (simp_all add: account_inv_def)
    from e(1) have h: "holding_time ?a = Inr 0" by (rule holding_time_no_sells)
    show ?thesis
      unfolding simple_backtest_rows [OF j] by (simp add: summary_def h e z)
  qed
  moreover have "trades (replay []) = 0"
    by (simp add: replay_def initial_account_def)
  ultimately show ?thesis by (simp add: joined_rows_empty)
qed

text \<open>
  The empty signal list on the three candles, and a lone BUY that is never
  closed.
\<close>

theorem zero_trades_defaults_witness:
  "(\<exists>res. simple_backtest scenario_df [] [] = Inr res \<and>
      num_trades res = 0 \<and> start_portfolio_value res = 100 \<and>
      end_portfolio_value res = 100 \<and> percentage_gain res = 0 \<and>
      win_rate res = 0 \<and> avg_perc_gain_per_trade res = 0 \<and>
      avg_gain_loss_per_trade res = 0 \<and> avg_holding_time res = 0) \<and>
   (\<exists>res. simple_backtest scenario_df [0] [BUY] = Inr res \<and>
      num_trades res = 0 \<and> start_portfolio_value res = 100 \<and>
      end_portfolio_value res = 100 \<and> percentage_gain res = 0 \<and>
      win_rate res = 0 \<and> avg_perc_gain_per_trade res = 0 \<and>
      avg_gain_loss_per_trade res = 0 \<and> avg_holding_time res = 0)"
proof -
  have e: "joined_rows scenario_df [] [] = Inr [] \<and> trades (replay []) = 0"
    using zero_trades_defaults [of scenario_df "[]" "[]" "[]"] by blast
  have b: "joined_rows scenario_df [0] [BUY] = Inr [(0, 100, BUY)] \<and>
      trades (replay [(0, 100, BUY)]) = 0"
  proof
    show "joined_rows scenario_df [0] [BUY] = Inr [(0, 100, BUY)]" by code_simp
    show "trades (replay [(0, 100, BUY)]) = 0"
      by (simp add: replay_def backtest_step_def initial_account_def BUY_def)
  qed
  from e b
    zero_trades_defaults [of scenario_df "[]" "[]" "[]"]
    zero_trades_defaults [of scenario_df "[0]" "[BUY]" "[(0, 100, BUY)]"]
  show ?thesis by blast
qed

section \<open>Average holding time\<close>

text \<open>
  C10, as stated, fails where an executed BUY is left unmatched and no trade
  has closed: the guard of line 137 skips the subtraction, the backtester
  returns normally, and its average holding time 0 is the value the
  specification gives for no closed trade.  A lone BUY on the three candles
  is such an input.
\<close>

theorem unmatched_buy_without_sell_counterexample:
  "simple_backtest scenario_df [0] [BUY] =
     Inr \<lparr> buy_times = [0], sell_times = [], trade_times = [],
           trade_gain_losses = [], trade_perc_gain_losses = [],
           num_wins = 0, win_rate = 0, num_trades = 0,
           start_portfolio_value = 100, end_portfolio_value = 100,
           percentage_gain = 0, avg_perc_gain_per_trade = 0,
           avg_gain_loss_per_trade = 0, avg_holding_time = 0 \<rparr> \<and>
   length [0 :: int] = length ([] :: int list) + 1 \<and>
   spec_avg_holding_time [0] [] = 0"
proof -
  have rows: "joined_rows scenario_df [0] [BUY] = Inr [(0, 100, BUY)]"
    by code_simp
  have r: "replay [(0, 100, BUY)] =
      \<lparr> buy_times = [0], sell_times = [], trade_times = [],
        trade_gain_losses = [], trade_perc_gain_losses = [],
        position = True, prev_portfolio_value = 100, portfolio_value = 100,
        crypto_value = 1, wins = 0, trades = 0 \<rparr>"
    by (simp add: replay_def backtest_step_def initial_account_def BUY_def)
  have s: "summary (replay [(0, 100, BUY)]) =
     Inr \<lparr> buy_times = [0], sell_times = [], trade_times = [],
           trade_gain_losses = [], trade_perc_gain_losses = [],
           num_wins = 0, win_rate = 0, num_trades = 0,
           start_portfolio_value = 100, end_portfolio_value = 100,
           percentage_gain = 0, avg_perc_gain_per_trade = 0,
           avg_gain_loss_per_trade = 0, avg_holding_time = 0 \<rparr>"
    unfolding r by (simp add: summary_def holding_time_def)
  from rows s show ?thesis
    by (simp add: simple_backtest_def spec_avg_holding_time_def)
qed

text \<open>
  C10, amended.  On a validated input the replay ends with as many buy times
  as sell times, or with one buy time more.  With equal numbers the
  backtester returns normally and avg_holding_time is the mean of the
  ordered pairwise differences sell time minus buy time (0 when there is
  none).  With an unmatched BUY: if no trade has closed it returns normally
  with avg_holding_time = 0; if exactly one trade has closed, with buy times
  b0, b1 and sell time s0, it returns normally with
  avg_holding_time = s0 - (b0 + b1) / 2, which is the mean holding time
  s0 - b0 of the closed trade only if b0 = b1; if two or more trades have
  closed the subtraction raises numpy's broadcast error.
\<close>

theorem avg_holding_time_by_shape:
  assumes j: "joined_rows df ts sgs = Inr rows"
  shows
   "(length (buy_times (replay rows)) = length (sell_times (replay rows)) \<or>
     length (buy_times (replay rows)) = length (sell_times (replay rows)) + 1) \<and>
    (length (buy_times (replay rows)) = length (sell_times (replay rows)) \<longrightarrow>
       (\<exists>res. simple_backtest df ts sgs = Inr res \<and>
          avg_holding_time res =
            spec_avg_holding_time (buy_times (replay rows)) (sell_times (replay rows)))) \<and>
    (length (buy_times (replay rows)) = length (sell_times (replay rows)) + 1 \<longrightarrow>
       (sell_times (replay rows) = [] \<longrightarrow>
          (\<exists>res. simple_backtest df ts sgs = Inr res \<and> avg_holding_time res = 0)) \<and>
       (\<forall>b0 b1 s0. buy_times (replay rows) = [b0, b1] \<and> sell_times (replay rows) = [s0] \<longrightarrow>
          (\<exists>res. simple_backtest df ts sgs = Inr res \<and>
             avg_holding_time res = real_of_int s0 - (real_of_int b0 + real_of_int b1) / 2 \<and>
             (avg_holding_time res = spec_avg_holding_time [b0, b1] [s0] \<longleftrightarrow> b0 = b1))) \<and>
       (2 \<le> length (sell_times (replay rows)) \<longrightarrow>
          simple_backtest df ts sgs = Inl BroadcastError))"
proof -
  let ?a = "replay rows"
  have sb: "simple_backtest df ts sgs = summary ?a"
    by (rule simple_backtest_rows [OF j])
  have inv: "account_inv ?a" by (rule account_inv_replay)
  then have shape: "length (buy_times ?a) = length (sell_times ?a) \<or>
      length (buy_times ?a) = length (sell_times ?a) + 1"
    by (simp add: account_inv_def)
  have matched: "\<exists>res. simple_backtest df ts sgs = Inr res \<and>
      avg_holding_time res = spec_avg_holding_time (buy_times ?a) (sell_times ?a)"
    if "length (buy_times ?a) = length (sell_times ?a)"
    unfolding sb by (rule summary_holding(2) [OF holding_time_matched [OF that]])
  have none: "\<exists>res. simple_backtest df ts sgs = Inr res \<and> avg_holding_time res = 0"
    if "sell_times ?a = []"
    unfolding sb by (rule summary_holding(2) [OF holding_time_no_sells [OF that]])
  have one: "\<exists>res. simple_backtest df ts sgs = Inr res \<and>
      avg_holding_time res = real_of_int s0 - (real_of_int b0 + real_of_int b1) / 2 \<and>
      (avg_holding_time res = spec_avg_holding_time [b0, b1] [s0] \<longleftrightarrow> b0 = b1)"
    if "buy_times ?a = [b0, b1]" "sell_times ?a = [s0]" for b0 b1 s0
  proof -
    from summary_holding(2) [OF holding_time_one_closed [OF that]]
    obtain res where res: "summary ?a = Inr res"
      "avg_holding_time res = real_of_int s0 - (real_of_int b0 + real_of_int b1) / 2"
      by blast
    have "spec_avg_holding_time [b0, b1] [s0] = real_of_int s0 - real_of_int b0"
      by (simp add: spec_avg_holding_time_def)
    with res show ?thesis unfolding sb by (auto simp: field_simps)
  qed
  have many: "simple_backtest df ts sgs = Inl BroadcastError"
    if "length (buy_times ?a) = length (sell_times ?a) + 1" "2 \<le> length (sell_times ?a)"
    unfolding sb summary_holding(1) by (rule holding_time_broadcast [OF that])
  from shape matched none one many show ?thesis by blast
qed

text \<open>
  Scenario A (one closed trade, held 120000 ms); BUY, SELL, BUY on the three
  candles (the result 0 is not the holding time 60000 of the closed trade);
  and BUY, SELL, BUY, SELL, BUY on five candles, where the subtraction of
  arrays of lengths 2 and 3 raises.
\<close>

theorem avg_holding_time_by_shape_witness:
  "(\<exists>res. simple_backtest scenario_df [0, 120000] [BUY, SELL] = Inr res \<and>
      avg_holding_time res = 120000) \<and>
   (\<exists>res. simple_backtest scenario_df [0, 60000, 120000] [BUY, SELL, BUY] = Inr res \<and>
      avg_holding_time res = 0 \<and>
      avg_holding_time res \<noteq> spec_avg_holding_time [0, 120000] [60000]) \<and>
   simple_backtest scenario_df5 [0, 60000, 120000, 180000, 240000]
     [BUY, SELL, BUY, SELL, BUY] = Inl BroadcastError"
proof -
  let ?ra = "[(0, 100, BUY), (120000, 90, SELL)] :: (int \<times> real \<times> int) list"
  let ?rb = "[(0, 100, BUY), (60000, 110, SELL), (120000, 90, BUY)]
    :: (int \<times> real \<times> int) list"
  let ?rc = "[(0, 100, BUY), (60000, 110, SELL), (120000, 90, BUY), (180000, 95, SELL),
    (240000, 105, BUY)] :: (int \<times> real \<times> int) list"
  have ja: "joined_rows scenario_df [0, 120000] [BUY, SELL] = Inr ?ra"
    by code_simp
  have jb: "joined_rows scenario_df [0, 60000, 120000] [BUY, SELL, BUY] = Inr ?rb"
    by code_simp
  have jc: "joined_rows scenario_df5 [0, 60000, 120000, 180000, 240000]
      [BUY, SELL, BUY, SELL, BUY] = Inr ?rc"
    by code_simp
  have a: "buy_times (replay ?ra) = [0]" "sell_times (replay ?ra) = [120000]"
    by (simp_all add: replay_def backtest_step_def initial_account_def BUY_def SELL_def)
  have b: "buy_times (replay ?rb) = [0, 120000]" "sell_times (replay ?rb) = [60000]"
    by (simp_all add: replay_def backtest_step_def initial_account_def BUY_def SELL_def)
  have c: "buy_times (replay ?rc) = [0, 120000, 240000]"
    "sell_times (replay ?rc) = [60000, 180000]"
    by (simp_all add: replay_def backtest_step_def initial_account_def BUY_def SELL_def)
  have sa: "spec_avg_holding_time [0] [120000] = 120000"
    by (simp add: spec_avg_holding_time_def)
  from avg_holding_time_by_shape [OF ja]
  have 1: "\<exists>res. simple_backtest scenario_df [0, 120000] [BUY, SELL] = Inr res \<and>
      avg_holding_time res = 120000"
    unfolding a sa by simp
  from avg_holding_time_by_shape [OF jb]
  have 2: "\<exists>res. simple_backtest scenario_df [0, 60000, 120000] [BUY, SELL, BUY] = Inr res \<and>
      avg_holding_time res = 0 \<and>
      avg_holding_time res \<noteq> spec_avg_holding_time [0, 120000] [60000]"
    unfolding b by auto
  from avg_holding_time_by_shape [OF jc]
  have 3: "simple_backtest scenario_df5 [0, 60000, 120000, 180000, 240000]
      [BUY, SELL, BUY, SELL, BUY] = Inl BroadcastError"
    unfolding c by simp
  from 1 2 3 show ?thesis by blast
qed

section \<open>Order of the input signals\<close>

text \<open>
  With pairwise distinct timestamps a candle has at most one signal, and it
  is the one the signal frame maps its time to.
\<close>

lemma filter_key_map_of:
  "distinct (map fst xs) \<Longrightarrow>
   filter (\<lambda>p. fst p = k) xs = (case map_of xs k of None \<Rightarrow> [] | Some v \<Rightarrow> [(k, v)])"
proof (induction xs)
  case Nil
  then show ?case by simp
next
  case (Cons x xs)
  obtain a b where x: "x = (a, b)" by (cases x)
  show ?case
  proof (cases "a = k")
    case True
    with Cons.prems x have "k \<notin> fst ` set xs" by simp
    then have "filter (\<lambda>p. fst p = k) xs = []"
      by (auto simp: filter_empty_conv)
    with True x show ?thesis by simp
  next
    case False
    with Cons x show ?thesis by simp
  qed
qed

lemma merge_left_cong:
  assumes "distinct (map fst xs)" "distinct (map fst ys)" "set xs = set ys"
  shows "merge_left df xs = merge_left df ys"
proof -
  from assms have "map_of xs = map_of ys" by (simp add: map_of_inject_set)
  with assms(1,2) show ?thesis
    by (simp add: merge_left_def filter_key_map_of)
qed

lemma signal_df_pairs:
  "signal_df (map fst ps) (map snd ps) = Inr (map (\<lambda>i. ps ! i) (argsort (map fst ps)))"
proof -
  have "map (\<lambda>i. (map fst ps ! i, map snd ps ! i)) (argsort (map fst ps)) =
      map (\<lambda>i. ps ! i) (argsort (map fst ps))"
    by (rule map_cong) (auto simp: set_argsort)
  then show ?thesis by (simp add: signal_df_eq)
qed

lemma mset_signal_df_pairs:
  "mset (map (\<lambda>i. ps ! i) (argsort (map fst ps))) = mset ps"
proof -
  have "mset (map (\<lambda>i. ps ! i) (argsort (map fst ps))) =
      image_mset (\<lambda>i. ps ! i) (mset (argsort (map fst ps)))"
    by simp
  also have "\<dots> = image_mset (\<lambda>i. ps ! i) (mset [0..<length ps])"
    by (simp only: mset_argsort length_map)
  also have "\<dots> = mset (map (\<lambda>i. ps ! i) [0..<length ps])"
    by simp
  also have "map (\<lambda>i. ps ! i) [0..<length ps] = ps"
    by (rule map_nth)
  finally show ?thesis .
qed

text \<open>
  C5.  For every dataset and every list of (timestamp, direction) pairs
  with pairwise distinct timestamps, any reordering of the pairs gives the
  identical outcome (the same result record, or the same error).  The
  backtester sorts first: the signal frame it joins to the candles holds
  the same pairs with the timestamps ascending.
\<close>

theorem simple_backtest_order_invariant:
  assumes perm: "mset ps = mset qs" and d: "distinct (map fst ps)"
  shows "simple_backtest df (map fst ps) (map snd ps) =
           simple_backtest df (map fst qs) (map snd qs) \<and>
         (\<exists>sdf. signal_df (map fst ps) (map snd ps) = Inr sdf \<and> sorted (map fst sdf) \<and>
            mset sdf = mset ps)"
proof -
  let ?xs = "map (\<lambda>i. ps ! i) (argsort (map fst ps))"
  let ?ys = "map (\<lambda>i. qs ! i) (argsort (map fst qs))"
  have mx: "mset ?xs = mset ps" and my: "mset ?ys = mset qs"
    by (rule mset_signal_df_pairs)+
  from perm have "mset (map fst ps) = mset (map fst qs)" by (metis mset_map)
  with d have dq: "distinct (map fst qs)" by (metis mset_eq_imp_distinct_iff)
  from mx have "mset (map fst ?xs) = mset (map fst ps)" by (metis mset_map)
  with d have dx: "distinct (map fst ?xs)" by (metis mset_eq_imp_distinct_iff)
  from my have "mset (map fst ?ys) = mset (map fst qs)" by (metis mset_map)
  with dq have dy: "distinct (map fst ?ys)" by (metis mset_eq_imp_distinct_iff)
  from mx my perm have "set ?xs = set ?ys" by (metis mset_eq_setD)
  with dx dy have m: "merge_left df ?xs = merge_left df ?ys" by (rule merge_left_cong)
  from perm have "set (map fst ps) = set (map fst qs)" by (metis mset_eq_setD mset_map)
  then have v: "(\<exists>t \<in> set (map fst ps). t \<notin> set (map Time df)) \<longleftrightarrow>
      (\<exists>t \<in> set (map fst qs). t \<notin> set (map Time df))"
    by simp
  have "joined_rows df (map fst ps) (map snd ps) = joined_rows df (map fst qs) (map snd qs)"
    unfolding joined_rows_def signal_df_pairs v using m by simp
  then have eq: "simple_backtest df (map fst ps) (map snd ps) =
      simple_backtest df (map fst qs) (map snd qs)"
    by (simp add: simple_backtest_def)
  have "map fst ?xs = map (\<lambda>i. map fst ps ! i) (argsort (map fst ps))"
    by (auto simp: set_argsort)
  then have "sorted (map fst ?xs)" by (simp only: sorted_argsort)
  with eq mx show ?thesis by (simp only: signal_df_pairs) blast
qed

text \<open>Scenario B: the signals of scenario A supplied out of order.\<close>

theorem simple_backtest_order_invariant_witness:
  "simple_backtest scenario_df [0, 120000] [BUY, SELL] =
     simple_backtest scenario_df [120000, 0] [SELL, BUY] \<and>
   (\<exists>sdf. signal_df [120000, 0] [SELL, BUY] = Inr sdf \<and> sorted (map fst sdf) \<and>
      mset sdf = mset [(120000, SELL), (0, BUY)])"
proof -
  have p: "mset [(120000 :: int, SELL), (0, BUY)] = mset [(0, BUY), (120000, SELL)]"
    by simp
  have d: "distinct (map fst [(120000 :: int, SELL), (0, BUY)])"
    by simp
  from simple_backtest_order_invariant [OF p d, of scenario_df]
  show ?thesis by simp
qed

section \<open>The scan of the generator\<close>

lemma alternating_snoc:
  "alternating (xs @ [x]) \<longleftrightarrow> alternating xs \<and> (xs = [] \<or> last xs \<noteq> x)"
  by (induction xs rule: alternating.induct) auto

lemma alternating_butlast:
  assumes "alternating xs" "xs \<noteq> []"
  shows "alternating (butlast xs) \<and> (butlast xs = [] \<or> last (butlast xs) \<noteq> last xs)"
proof -
  from assms(2) have "xs = butlast xs @ [last xs]" by simp
  with assms(1) have "alternating (butlast xs @ [last xs])" by simp
  then show ?thesis by (simp only: alternating_snoc)
qed

lemma scan_inv_initial: "scan_inv initial_scan"
  by (simp add: scan_inv_def initial_scan_def)

lemma scan_step_inv:
  assumes "scan_step df target s i = Inr s'" "scan_inv s"
  shows "scan_inv s'"
  using assms
  by (auto simp: scan_step_def scan_inv_def alternating_snoc Let_def
        split: if_splits sum.splits option.splits)

lemma scan_inv_scan:
  "scan df target is s = Inr s' \<Longrightarrow> scan_inv s \<Longrightarrow> scan_inv s'"
proof (induction "is" arbitrary: s)
  case Nil
  then show ?case by simp
next
  case (Cons i rest)
  from Cons.prems(1) obtain s1 where s1: "scan_step df target s i = Inr s1"
    and rest: "scan df target rest s1 = Inr s'"
    by (auto split: sum.splits)
  from s1 Cons.prems(2) have "scan_inv s1" by (rule scan_step_inv)
  with rest show ?case by (rule Cons.IH)
qed

text \<open>
  Inside the range of the scan no row access fails and no local is read
  before it is bound: the only exception of \<^verbatim>\<open>simulate_trades\<close> is the
  \<^verbatim>\<open>IndexError\<close> of line 92.
\<close>

lemma scan_step_total:
  assumes "scan_inv s" "i + 2 < length df"
  shows "\<exists>s'. scan_step df target s i = Inr s'"
proof (cases "active_trade s")
  case True
  with assms(1) obtain sl tp where "stop_loss s = Some sl" "take_profit s = Some tp"
    by (auto simp: scan_inv_def)
  with True assms(2) show ?thesis
    by (simp add: scan_step_def row_at_def)
next
  case False
  with assms(2) show ?thesis
    by (simp add: scan_step_def row_at_def Let_def)
qed

lemma scan_total:
  "scan_inv s \<Longrightarrow> \<forall>i \<in> set is. i + 2 < length df \<Longrightarrow> \<exists>s'. scan df target is s = Inr s'"
proof (induction "is" arbitrary: s)
  case Nil
  then show ?case by simp
next
  case (Cons i rest)
  from Cons.prems obtain s1 where s1: "scan_step df target s i = Inr s1"
    using scan_step_total [of s i df target] by auto
  with Cons.prems(1) have "scan_inv s1" by (auto intro: scan_step_inv)
  with Cons.prems(2) obtain s' where "scan df target rest s1 = Inr s'"
    using Cons.IH [of s1] by auto
  with s1 show ?case by simp
qed

lemma simulate_trades_cases:
  assumes "102 \<le> length df"
  shows "simulate_trades df target = Inl IndexError \<or>
         (\<exists>ts sgs. simulate_trades df target = Inr (Some (ts, sgs)))"
proof -
  have "\<forall>i \<in> set [100..<length df - 2]. i + 2 < length df" by auto
  with scan_inv_initial obtain s where
    "scan df target [100..<length df - 2] initial_scan = Inr s"
    using scan_total by blast
  with assms show ?thesis by (simp add: simulate_trades_def)
qed

lemma scan_step_no_fractal:
  assumes "\<not> active_trade s" "i < length df" "bull (df ! i) = None"
  shows "scan_step df target s i = Inr s"
  using assms by (simp add: scan_step_def row_at_def nan_le_def)

lemma scan_no_fractal:
  assumes "\<not> active_trade s" "\<forall>i \<in> set is. i < length df" "\<forall>r \<in> set df. bull r = None"
  shows "scan df target is s = Inr s"
  using assms(2)
proof (induction "is")
  case Nil
  then show ?case by simp
next
  case (Cons i rest)
  then have "i < length df" by simp
  moreover from this assms(3) have "bull (df ! i) = None" by simp
  ultimately have "scan_step df target s i = Inr s"
    using assms(1) by (simp add: scan_step_no_fractal)
  with Cons show ?case by simp
qed

lemma nan_zone:
  "nan_le (bull r) (twenty_ema r) \<and> nan_gt (bull r) (fifty_ema r) \<longleftrightarrow> fast_mid_zone r"
  "nan_le (bull r) (fifty_ema r) \<and> nan_gt (bull r) (one_hundred_ema r) \<longleftrightarrow> mid_slow_zone r"
  by (auto simp: nan_le_def nan_gt_def fast_mid_zone_def mid_slow_zone_def split: option.splits)

section \<open>The output of the generator\<close>

text \<open>
  C6.  Whenever \<^verbatim>\<open>simulate_trades\<close> returns a pair of lists, the signal list
  is empty or ends with a SELL: an entry that was never closed within the
  data is removed.  In the order of emission the returned signals alternate
  and there is one timestamp per signal.
\<close>

theorem simulate_trades_never_ends_with_buy:
  assumes "simulate_trades df target = Inr (Some (ts, sgs))"
  shows "(sgs = [] \<or> last sgs = - 1) \<and> alternating sgs \<and> length ts = length sgs"
proof -
  from assms obtain s where sc: "scan df target [100..<length df - 2] initial_scan = Inr s"
    and ne: "signals s \<noteq> []"
    and out: "(ts, sgs) = (if last (signals s) = 1
        then (butlast (timestamps s), butlast (signals s)) else (timestamps s, signals s))"
    by (auto simp: simulate_trades_def split: if_splits sum.splits)
  from sc scan_inv_initial have inv: "scan_inv s" by (rule scan_inv_scan)
  then have alt: "alternating (signals s)" and vals: "set (signals s) \<subseteq> {1, - 1}"
    and len: "length (timestamps s) = length (signals s)"
    by (simp_all add: scan_inv_def)
  show ?thesis
  proof (cases "last (signals s) = 1")
    case True
    with out have o: "ts = butlast (timestamps s)" "sgs = butlast (signals s)" by simp_all
    from alternating_butlast [OF alt ne] True
    have a: "alternating sgs" and b: "sgs = [] \<or> last sgs \<noteq> 1" by (simp_all add: o)
    have "set sgs \<subseteq> {1, - 1}" using vals o(2) by (meson in_set_butlastD subset_iff)
    with b have "sgs = [] \<or> last sgs = - 1"
      by (metis insertE last_in_set singletonD subsetD)
    with a len o show ?thesis by simp
  next
    case False
    with out have o: "ts = timestamps s" "sgs = signals s" by simp_all
    from ne vals have "last (signals s) \<in> {1, - 1}" by (meson last_in_set subsetD)
    with False have "last (signals s) = - 1" by simp
    with alt len o show ?thesis by simp
  qed
qed

text \<open>
  109 rows with fractals at rows 100 and 105 and a high above the take
  profit at row 103: the entry confirmed at row 102 is closed at row 103,
  the entry confirmed at row 107 is never closed and is removed.
\<close>

theorem simulate_trades_never_ends_with_buy_witness:
  "simulate_trades (frame 109 [100, 105] [103]) (3 / 2) =
     Inr (Some ([6120000, 6180000], [1, - 1])) \<and>
   last [1, - 1 :: int] = - 1 \<and> alternating [1, - 1]"
proof -
  have r: "simulate_trades (frame 109 [100, 105] [103]) (3 / 2) =
      Inr (Some ([6120000, 6180000], [1, - 1]))"
    by code_simp
  from simulate_trades_never_ends_with_buy [OF r] r show ?thesis by simp
qed

text \<open>
  C2.  A frame of fewer than 102 rows gives the absent result.  A frame of
  exactly 102 rows, and any frame of at least 102 rows without a bullish
  fractal, raises: no signal is emitted, and \<^verbatim>\<open>signals[-1]\<close> of line 92 reads
  the last element of an empty list.
\<close>

theorem simulate_trades_without_signal_raises:
  "(length df < 102 \<longrightarrow> simulate_trades df target = Inr None) \<and>
   (length df = 102 \<longrightarrow> simulate_trades df target = Inl IndexError) \<and>
   (102 \<le> length df \<and> (\<forall>r \<in> set df. bull r = None) \<longrightarrow>
      simulate_trades df target = Inl IndexError)"
proof -
  have a: "simulate_trades df target = Inr None" if "length df < 102"
    using that by (simp add: simulate_trades_def)
  have b: "simulate_trades df target = Inl IndexError" if "length df = 102"
    using that by (simp add: simulate_trades_def initial_scan_def)
  have c: "simulate_trades df target = Inl IndexError"
    if l: "102 \<le> length df" and n: "\<forall>r \<in> set df. bull r = None"
  proof -
    have "\<forall>i \<in> set [100..<length df - 2]. i < length df" by auto
    with n have "scan df target [100..<length df - 2] initial_scan = Inr initial_scan"
      by (intro scan_no_fractal) (simp_all add: initial_scan_def)
    with l show ?thesis by (simp add: simulate_trades_def initial_scan_def)
  qed
  from a b c show ?thesis by blast
qed

text \<open>Frames of 50, 102 and 108 one-minute rows without any fractal.\<close>

theorem simulate_trades_without_signal_raises_witness:
  "simulate_trades (frame 50 [] []) (3 / 2) = Inr None \<and>
   simulate_trades (frame 102 [] []) (3 / 2) = Inl IndexError \<and>
   simulate_trades (frame 108 [] []) (3 / 2) = Inl IndexError"
proof -
  have l: "length (frame 50 [] []) < 102" "length (frame 102 [] []) = 102"
    "102 \<le> length (frame 108 [] [])"
    by (simp_all add: frame_def)
  have n: "\<forall>r \<in> set (frame 108 [] []). bull r = None"
    by (auto simp: frame_def frame_row_def)
  from l n
    simulate_trades_without_signal_raises [of "frame 50 [] []" "3 / 2"]
    simulate_trades_without_signal_raises [of "frame 102 [] []" "3 / 2"]
    simulate_trades_without_signal_raises [of "frame 108 [] []" "3 / 2"]
  show ?thesis by blast
qed

text \<open>
  C1.  109 rows with fractals at rows 100 and 103 and highs above the take
  profit at rows 101 and 106.  The entry found at row 100 is stamped with
  the time of row 102, and the exit test of the next row, 101, closes it
  with the earlier time of row 101.  Sorted by time the output reads SELL,
  BUY, BUY, SELL: two consecutive BUYs.
\<close>

theorem sorted_output_repeats_buy:
  "simulate_trades (frame 109 [100, 103] [101, 106]) (3 / 2) =
     Inr (Some ([6120000, 6060000, 6300000, 6360000], [1, - 1, 1, - 1])) \<and>
   sorted_by_time [6120000, 6060000, 6300000, 6360000] [1, - 1, 1, - 1] =
     [(6060000, - 1), (6120000, 1), (6300000, 1), (6360000, - 1)] \<and>
   \<not> alternating (map snd
       (sorted_by_time [6120000, 6060000, 6300000, 6360000] [1, - 1, 1, - 1]))"
proof -
  have r: "simulate_trades (frame 109 [100, 103] [101, 106]) (3 / 2) =
      Inr (Some ([6120000, 6060000, 6300000, 6360000], [1, - 1, 1, - 1]))"
    by code_simp
  have s: "sorted_by_time [6120000, 6060000, 6300000, 6360000] [1, - 1, 1, - 1] =
      [(6060000, - 1), (6120000, 1), (6300000, 1), (6360000, - 1)]"
    by code_simp
  from r s show ?thesis by simp
qed

section \<open>The entry rule\<close>

text \<open>
  C7.  From the flat state, at a row \<open>i\<close> of the scan, the generator
  enters exactly when the trend filter holds strictly at row \<open>i\<close> and the
  fractal of row \<open>i\<close> is non-null and lies in the fast/mid zone or, failing
  that, in the mid/slow zone.  The entry is stamped with the time of row
  \<open>i + 2\<close>, its stop loss is the middle (respectively slow) EMA of row
  \<open>i + 2\<close> and its take profit is the close of row \<open>i + 2\<close> plus the target
  ratio times the distance from that close to the stop loss.  Otherwise the
  state is unchanged.  At a row whose fast EMA is not above its middle EMA
  no BUY is emitted from any state.
\<close>

theorem entry_rule:
  "(\<not> active_trade s \<and> i + 2 < length df \<longrightarrow>
      scan_step df target s i =
        Inr (if trend_filter (df ! i) \<and> fast_mid_zone (df ! i)
               then entered s target (df ! (i + 2)) (fifty_ema (df ! (i + 2)))
             else if trend_filter (df ! i) \<and> mid_slow_zone (df ! i)
               then entered s target (df ! (i + 2)) (one_hundred_ema (df ! (i + 2)))
             else s)) \<and>
   (i < length df \<and> twenty_ema (df ! i) \<le> fifty_ema (df ! i) \<and>
    scan_step df target s i = Inr s' \<longrightarrow>
      signals s' = signals s \<or> signals s' = signals s @ [- 1])"
proof -
  have a: "scan_step df target s i =
        Inr (if trend_filter (df ! i) \<and> fast_mid_zone (df ! i)
               then entered s target (df ! (i + 2)) (fifty_ema (df ! (i + 2)))
             else if trend_filter (df ! i) \<and> mid_slow_zone (df ! i)
               then entered s target (df ! (i + 2)) (one_hundred_ema (df ! (i + 2)))
             else s)"
    if "\<not> active_trade s" "i + 2 < length df"
    using that
    by (simp add: scan_step_def row_at_def nan_zone trend_filter_def entered_def Let_def
          mult.commute)
  have b: "signals s' = signals s \<or> signals s' = signals s @ [- 1]"
    if "i < length df" "twenty_ema (df ! i) \<le> fifty_ema (df ! i)"
      "scan_step df target s i = Inr s'"
    using that
    by (auto simp: scan_step_def row_at_def split: if_splits option.splits)
  from a b show ?thesis by blast
qed

text \<open>
  Row 100 of a bullish frame, with its fractal in the fast/mid zone, and
  row 100 of scenario D, where the fractal lies in the mid/slow zone but the
  fast EMA equals the middle EMA.
\<close>

theorem entry_rule_witness:
  "scan_step (frame 109 [100, 103] [101, 106]) (3 / 2) initial_scan 100 =
     Inr \<lparr> active_trade = True, timestamps = [6120000], signals = [1],
           stop_loss = Some 24, take_profit = Some (63 / 2) \<rparr> \<and>
   mid_slow_zone (scenario_d_frame ! 100) \<and>
   scan_step scenario_d_frame (3 / 2) initial_scan 100 = Inr initial_scan"
proof -
  let ?f = "frame 109 [100, 103] [101, 106]"
  have f: "\<not> active_trade initial_scan" "100 + 2 < length ?f"
    "100 + 2 < length scenario_d_frame" "100 < length scenario_d_frame"
    by (simp_all add: initial_scan_def frame_def scenario_d_frame_def)
  have r: "?f ! 100 = frame_row [100, 103] [101, 106] 100"
    "?f ! (100 + 2) = frame_row [100, 103] [101, 106] 102"
    by (simp_all add: frame_def)
  have z: "trend_filter (?f ! 100)" "fast_mid_zone (?f ! 100)"
    unfolding r by (simp_all add: frame_row_def trend_filter_def fast_mid_zone_def)
  have e: "entered initial_scan (3 / 2) (?f ! (100 + 2)) (fifty_ema (?f ! (100 + 2))) =
      \<lparr> active_trade = True, timestamps = [6120000], signals = [1],
        stop_loss = Some 24, take_profit = Some (63 / 2) \<rparr>"
    unfolding r by (simp add: entered_def frame_row_def initial_scan_def)
  have d: "scenario_d_frame ! 100 = scenario_d_row"
    by (simp add: scenario_d_frame_def frame_def)
  have dz: "\<not> trend_filter (scenario_d_frame ! 100)" "mid_slow_zone (scenario_d_frame ! 100)"
    "twenty_ema (scenario_d_frame ! 100) \<le> fifty_ema (scenario_d_frame ! 100)"
    unfolding d by (simp_all add: scenario_d_row_def trend_filter_def mid_slow_zone_def)
  from f z e entry_rule [of initial_scan 100 ?f "3 / 2"]
  have 1: "scan_step ?f (3 / 2) initial_scan 100 =
      Inr \<lparr> active_trade = True, timestamps = [6120000], signals = [1],
            stop_loss = Some 24, take_profit = Some (63 / 2) \<rparr>"
    by simp
  from f dz entry_rule [of initial_scan 100 scenario_d_frame "3 / 2"]
  have 2: "scan_step scenario_d_frame (3 / 2) initial_scan 100 = Inr initial_scan"
    by simp
  from f dz 2 entry_rule [of initial_scan 100 scenario_d_frame "3 / 2" initial_scan]
  have "signals initial_scan = signals initial_scan \<or>
      signals initial_scan = signals initial_scan @ [- 1]"
    by blast
  with 1 2 dz show ?thesis by simp
qed

end
